theory Spec2Isabelle
  imports Complex_Main
begin

section \<open>JavaScript values\<close>

text \<open>
  The fields of the \<open>WaveSurfer.WebAudio\<close> object are untyped JavaScript properties: each
  one is \<open>undefined\<close> until some method assigns it, and the methods combine them with
  \<open>&&\<close>, \<open>||\<close>, \<open>+\<close>, \<open>-\<close>, \<open>*\<close>, \<open>/\<close>, \<open>>\<close> and \<open><=\<close>. The model keeps that: a property
  holds a \<open>jsval\<close>, and every operator is the ECMAScript one on the values that occur here
  (\<open>undefined\<close>, \<open>null\<close>, booleans and numbers).

  A number is \<open>NaN\<close>, one of the two infinities, or a finite value. Finite values are
  exact reals: rounding and overflow of IEEE doubles are not modelled, and there is one
  zero (a zero divisor counts as \<open>+0\<close>, which is what the literal \<open>0\<close> of
  \<open>getDuration\<close> is).
\<close>

datatype jsnum = NaN | PInf | NInf | Fin real

datatype jsval = Undefined | Null | JBool bool | JNum jsnum

fun to_number :: "jsval \<Rightarrow> jsnum" where
  "to_number Undefined = NaN"
| "to_number Null = Fin 0"
| "to_number (JBool b) = (if b then Fin 1 else Fin 0)"
| "to_number (JNum n) = n"

fun truthy :: "jsval \<Rightarrow> bool" where
  "truthy Undefined = False"
| "truthy Null = False"
| "truthy (JBool b) = b"
| "truthy (JNum NaN) = False"
| "truthy (JNum PInf) = True"
| "truthy (JNum NInf) = True"
| "truthy (JNum (Fin r)) = (r \<noteq> 0)"

definition js_and :: "jsval \<Rightarrow> jsval \<Rightarrow> jsval" where
  "js_and a b = (if truthy a then b else a)"

definition js_or :: "jsval \<Rightarrow> jsval \<Rightarrow> jsval" where
  "js_or a b = (if truthy a then a else b)"

text \<open>\<open>null == x\<close> holds exactly for \<open>null\<close> and \<open>undefined\<close>.\<close>

fun is_nullish :: "jsval \<Rightarrow> bool" where
  "is_nullish Undefined = True"
| "is_nullish Null = True"
| "is_nullish _ = False"

fun num_neg :: "jsnum \<Rightarrow> jsnum" where
  "num_neg NaN = NaN"
| "num_neg PInf = NInf"
| "num_neg NInf = PInf"
| "num_neg (Fin r) = Fin (- r)"

fun num_add :: "jsnum \<Rightarrow> jsnum \<Rightarrow> jsnum" where
  "num_add NaN _ = NaN"
| "num_add _ NaN = NaN"
| "num_add PInf NInf = NaN"
| "num_add NInf PInf = NaN"
| "num_add PInf _ = PInf"
| "num_add _ PInf = PInf"
| "num_add NInf _ = NInf"
| "num_add _ NInf = NInf"
| "num_add (Fin a) (Fin b) = Fin (a + b)"

definition num_sub :: "jsnum \<Rightarrow> jsnum \<Rightarrow> jsnum" where
  "num_sub a b = num_add a (num_neg b)"

text \<open>The sign of a number that is not \<open>NaN\<close>: \<open>-1\<close>, \<open>0\<close> or \<open>1\<close>.\<close>

fun num_sign :: "jsnum \<Rightarrow> int" where
  "num_sign NaN = 0"
| "num_sign PInf = 1"
| "num_sign NInf = - 1"
| "num_sign (Fin r) = (if r < 0 then - 1 else if r = 0 then 0 else 1)"

definition inf_of_sign :: "int \<Rightarrow> jsnum" where
  "inf_of_sign k = (if k = 0 then NaN else if 0 < k then PInf else NInf)"

fun num_mul :: "jsnum \<Rightarrow> jsnum \<Rightarrow> jsnum" where
  "num_mul NaN _ = NaN"
| "num_mul _ NaN = NaN"
| "num_mul (Fin a) (Fin b) = Fin (a * b)"
| "num_mul a b = inf_of_sign (num_sign a * num_sign b)"

fun num_div :: "jsnum \<Rightarrow> jsnum \<Rightarrow> jsnum" where
  "num_div NaN _ = NaN"
| "num_div _ NaN = NaN"
| "num_div (Fin a) (Fin b) = (if b = 0 then inf_of_sign (num_sign (Fin a)) else Fin (a / b))"
| "num_div (Fin a) _ = Fin 0"
| "num_div a (Fin b) = inf_of_sign (num_sign a * (if b < 0 then - 1 else 1))"
| "num_div _ _ = NaN"

fun num_less :: "jsnum \<Rightarrow> jsnum \<Rightarrow> bool" where
  "num_less NaN _ = False"
| "num_less _ NaN = False"
| "num_less PInf _ = False"
| "num_less _ NInf = False"
| "num_less NInf _ = True"
| "num_less _ PInf = True"
| "num_less (Fin a) (Fin b) = (a < b)"

fun num_le :: "jsnum \<Rightarrow> jsnum \<Rightarrow> bool" where
  "num_le NaN _ = False"
| "num_le _ NaN = False"
| "num_le a b = (\<not> num_less b a)"

definition js_add :: "jsval \<Rightarrow> jsval \<Rightarrow> jsval" where
  "js_add a b = JNum (num_add (to_number a) (to_number b))"

definition js_sub :: "jsval \<Rightarrow> jsval \<Rightarrow> jsval" where
  "js_sub a b = JNum (num_sub (to_number a) (to_number b))"

definition js_mul :: "jsval \<Rightarrow> jsval \<Rightarrow> jsval" where
  "js_mul a b = JNum (num_mul (to_number a) (to_number b))"

definition js_div :: "jsval \<Rightarrow> jsval \<Rightarrow> jsval" where
  "js_div a b = JNum (num_div (to_number a) (to_number b))"

text \<open>\<open>a > b\<close> and \<open>a <= b\<close>: both are false as soon as one side converts to \<open>NaN\<close>.\<close>

definition js_gt :: "jsval \<Rightarrow> jsval \<Rightarrow> bool" where
  "js_gt a b = num_less (to_number b) (to_number a)"

definition js_le :: "jsval \<Rightarrow> jsval \<Rightarrow> bool" where
  "js_le a b = num_le (to_number a) (to_number b)"

section \<open>The session object\<close>

text \<open>
  What the platform supplies is typed by the platform: an \<open>AudioBuffer\<close> has a finite
  \<open>duration\<close>, and \<open>ac.currentTime\<close> is a finite reading of the hardware clock, passed to
  every operation that reads it as the argument \<open>now\<close>. A buffer source node is reduced to
  the properties the code writes, and to the arguments of its \<open>start\<close> call; the calls
  into the platform (\<open>connect\<close>, \<open>disconnect\<close>, \<open>start\<close>, \<open>stop\<close>) are taken to return. What
  can throw inside the object is a property access on a missing source.
\<close>

record audiobuffer =
  duration :: real

record buffersource =
  src_buffer :: "audiobuffer option"
  src_playbackRate :: jsval
  src_loop :: jsval
  src_loopStart :: jsval
  src_loopEnd :: jsval
  src_started :: "(jsval \<times> jsval) option"

datatype event = EvPlay | EvPause | EvFinish jsval | EvAudioprocess jsval

record session =
  loopSelection :: jsval
  playBackrate :: jsval
  source :: "buffersource option"
  buffer :: "audiobuffer option"
  lastLoop :: jsval
  lastPause :: jsval
  lastStart :: jsval
  startTime :: jsval
  paused :: jsval
  scheduledPause :: jsval
  loop :: jsval
  loopStart :: jsval
  loopEnd :: jsval
  loopedAtStart :: jsval
  events :: "event list"

datatype js_error = TypeError | Error

datatype completion = Return jsval | Throw js_error

text \<open>
  Modelled from the spec: \<open>fireEvent\<close> comes from \<open>WaveSurfer.Observer\<close>, which is mixed
  into the object on the last line of the file and is not part of it. The spec's event
  sink delivers in emission order, so an emission is appended to a log.
\<close>

definition fireEvent :: "event \<Rightarrow> session \<Rightarrow> session" where
  "fireEvent e s = s\<lparr>events := events s @ [e]\<rparr>"

text \<open>An object on which no method has run yet: no property is assigned.\<close>

definition blank :: session where
  "blank = \<lparr>loopSelection = Undefined, playBackrate = Undefined, source = None,
     buffer = None, lastLoop = Undefined, lastPause = Undefined, lastStart = Undefined,
     startTime = Undefined, paused = Undefined, scheduledPause = Undefined,
     loop = Undefined, loopStart = Undefined, loopEnd = Undefined,
     loopedAtStart = Undefined, events = []\<rparr>"

definition setPlaybackRate :: "jsval \<Rightarrow> session \<Rightarrow> session" where
  "setPlaybackRate v s = s\<lparr>playBackrate := js_or v (JNum (Fin 1))\<rparr>"

text \<open>
  \<open>init(params)\<close>: \<open>supported\<close> says whether the window has an \<open>AudioContext\<close>;
  \<open>ls\<close> and \<open>rate\<close> are \<open>params.loopSelection\<close> and \<open>params.audioRate\<close>.
\<close>

definition init :: "bool \<Rightarrow> jsval \<Rightarrow> jsval \<Rightarrow> session \<Rightarrow> session \<times> completion" where
  "init supported ls rate s =
     (if \<not> supported then (s, Throw Error)
      else (setPlaybackRate rate (s\<lparr>loopSelection := ls\<rparr>), Return Undefined))"

definition clearSource :: "session \<Rightarrow> session" where
  "clearSource s = (case source s of None \<Rightarrow> s | Some _ \<Rightarrow> s\<lparr>source := None\<rparr>)"

text \<open>The node \<open>ac.createBufferSource()\<close> returns, with the defaults of the platform.\<close>

definition createBufferSource :: buffersource where
  "createBufferSource = \<lparr>src_buffer = None, src_playbackRate = JNum (Fin 1),
     src_loop = JBool False, src_loopStart = JNum (Fin 0), src_loopEnd = JNum (Fin 0),
     src_started = None\<rparr>"

definition refreshBufferSource :: "session \<Rightarrow> session" where
  "refreshBufferSource s =
     (let s1 = clearSource s;
          src = createBufferSource;
          src1 = (if truthy (playBackrate s1) then src\<lparr>src_playbackRate := playBackrate s1\<rparr>
                  else src);
          src2 = (case buffer s1 of None \<Rightarrow> src1 | Some b \<Rightarrow> src1\<lparr>src_buffer := Some b\<rparr>)
      in s1\<lparr>source := Some src2\<rparr>)"

definition setupLoop :: "session \<Rightarrow> session \<times> completion" where
  "setupLoop s =
     (let s1 = s\<lparr>lastLoop := JNum (Fin 0), loopedAtStart := JBool False\<rparr>
      in if truthy (js_and (loop s1) (JBool (js_le (lastStart s1) (loopEnd s1)))) then
           (let s2 = s1\<lparr>loopedAtStart := JBool True\<rparr>
            in case source s2 of
                 None \<Rightarrow> (s2, Throw TypeError)
               | Some src \<Rightarrow>
                   (s2\<lparr>source := Some (src\<lparr>src_loop := JBool True,
                                             src_loopStart := loopStart s2,
                                             src_loopEnd := loopEnd s2\<rparr>)\<rparr>,
                    Return Undefined))
         else (s1, Return Undefined))"

definition setBuffer :: "audiobuffer option \<Rightarrow> session \<Rightarrow> session" where
  "setBuffer b s =
     (clearSource s)\<lparr>lastLoop := JNum (Fin 0), lastPause := JNum (Fin 0),
       lastStart := JNum (Fin 0), startTime := JNum (Fin 0), paused := JBool True,
       buffer := b\<rparr>"

definition loadEmpty :: "session \<Rightarrow> session" where
  "loadEmpty s = setBuffer None s"

definition isPaused :: "session \<Rightarrow> jsval" where
  "isPaused s = paused s"

definition getDuration :: "session \<Rightarrow> jsval" where
  "getDuration s = (case buffer s of None \<Rightarrow> JNum (Fin 0) | Some b \<Rightarrow> JNum (Fin (duration b)))"

definition loopIsActive :: "session \<Rightarrow> jsval" where
  "loopIsActive s =
     js_and (js_and (js_and (loopSelection s) (loop s)) (lastLoop s)) (loopedAtStart s)"

definition getCurrentTime :: "session \<Rightarrow> real \<Rightarrow> jsval" where
  "getCurrentTime s now =
     (if truthy (isPaused s) then lastPause s
      else if truthy (loopIsActive s) then
        js_add (loopStart s) (js_mul (js_sub (JNum (Fin now)) (lastLoop s)) (playBackrate s))
      else
        js_add (lastStart s) (js_mul (js_sub (JNum (Fin now)) (startTime s)) (playBackrate s)))"

definition play :: "session \<Rightarrow> real \<Rightarrow> jsval \<Rightarrow> jsval \<Rightarrow> session \<times> completion" where
  "play s now startArg endArg =
     (let s1 = refreshBufferSource s;
          start1 = (if is_nullish startArg then getCurrentTime s1 now else startArg);
          end1 = (if is_nullish endArg then getDuration s1 else endArg);
          start2 = (if js_gt start1 end1 then JNum (Fin 0) else start1);
          s2 = s1\<lparr>lastStart := start2, startTime := JNum (Fin now),
                  paused := JBool False, scheduledPause := end1\<rparr>;
          r = (if truthy (loopSelection s2) then setupLoop s2 else (s2, Return Undefined))
      in case snd r of
           Throw e \<Rightarrow> (fst r, Throw e)
         | Return _ \<Rightarrow>
             (case source (fst r) of
                None \<Rightarrow> (fst r, Throw TypeError)
              | Some src \<Rightarrow>
                  (fireEvent EvPlay
                     ((fst r)\<lparr>source :=
                         Some (src\<lparr>src_started := Some (start2, js_sub end1 start2)\<rparr>)\<rparr>),
                   Return Undefined)))"

definition pause :: "session \<Rightarrow> real \<Rightarrow> session \<times> completion" where
  "pause s now =
     (let s1 = (if truthy (loopIsActive s) then
                  s\<lparr>lastPause := js_add (loopStart s)
                     (js_mul (js_sub (JNum (Fin now)) (lastLoop s)) (playBackrate s))\<rparr>
                else
                  s\<lparr>lastPause := js_add (lastStart s)
                     (js_mul (js_sub (JNum (Fin now)) (startTime s)) (playBackrate s))\<rparr>);
          s2 = s1\<lparr>paused := JBool True\<rparr>;
          s3 = (case source s2 of None \<Rightarrow> s2 | Some _ \<Rightarrow> clearSource s2)
      in (fireEvent EvPause s3, Return Undefined))"

definition getPlayedPercents :: "session \<Rightarrow> real \<Rightarrow> jsval" where
  "getPlayedPercents s now = js_or (js_div (getCurrentTime s now) (getDuration s)) (JNum (Fin 0))"

text \<open>The callback installed by \<open>createScriptNode\<close> as \<open>scriptNode.onaudioprocess\<close>.\<close>

definition onaudioprocess :: "session \<Rightarrow> real \<Rightarrow> session" where
  "onaudioprocess s now =
     (if \<not> truthy (isPaused s) then
        (let time = getCurrentTime s now;
             s1 = (if js_gt time (scheduledPause s) then
                     (let s' = fst (pause s now)
                      in if js_gt time (getDuration s') then fireEvent (EvFinish time) s'
                         else s')
                   else s)
         in fireEvent (EvAudioprocess time) s1)
      else s)"

definition updateSelection :: "session \<Rightarrow> jsval \<Rightarrow> jsval \<Rightarrow> session \<times> completion" where
  "updateSelection s startPercent endPercent =
     (if \<not> truthy (loopSelection s) then (s, Return (JBool False))
      else
        (let d = getDuration s
         in if \<not> truthy d then (s, Return Undefined)
            else
              (let s1 = s\<lparr>loop := JBool True, loopStart := js_mul d startPercent,
                           loopEnd := js_mul d endPercent\<rparr>
               in (case source s1 of
                     None \<Rightarrow> s1
                   | Some src \<Rightarrow>
                       s1\<lparr>source := Some (src\<lparr>src_loop := loop s1,
                                                src_loopStart := loopStart s1,
                                                src_loopEnd := loopEnd s1\<rparr>)\<rparr>,
                   Return Undefined))))"

definition clearSelection :: "session \<Rightarrow> session \<times> completion" where
  "clearSelection s =
     (if \<not> truthy (loopSelection s) then (s, Return (JBool False))
      else
        (let s1 = s\<lparr>loop := JBool False, loopStart := JNum (Fin 0), loopEnd := JNum (Fin 0)\<rparr>
         in (case source s1 of
               None \<Rightarrow> s1
             | Some src \<Rightarrow>
                 s1\<lparr>source := Some (src\<lparr>src_loop := JBool False,
                                          src_loopStart := loopStart s1,
                                          src_loopEnd := loopEnd s1\<rparr>)\<rparr>,
             Return Undefined)))"

definition logLoop :: "session \<Rightarrow> real \<Rightarrow> session" where
  "logLoop s now = (if truthy (loopedAtStart s) then s\<lparr>lastLoop := JNum (Fin now)\<rparr> else s)"

section \<open>Definitions used in the statements\<close>

text \<open>The object right after \<open>init(params)\<close> on a supported platform, no rate given.\<close>

definition fresh :: "jsval \<Rightarrow> session" where
  "fresh ls = fst (init True ls Undefined blank)"

text \<open>
  The time computation as the specification words it: a loop is active when
  \<open>loopSelectionEnabled\<close>, \<open>loopEnabled\<close>, \<open>lastLoop != 0\<close> and \<open>loopedAtStart\<close> all hold.
\<close>

definition spec_loop_active :: "session \<Rightarrow> bool" where
  "spec_loop_active s =
     (truthy (loopSelection s) \<and> truthy (loop s) \<and> lastLoop s \<noteq> JNum (Fin 0) \<and>
      truthy (loopedAtStart s))"

definition spec_position :: "session \<Rightarrow> real \<Rightarrow> jsval" where
  "spec_position s now =
     (if truthy (paused s) then lastPause s
      else if spec_loop_active s then
        js_add (loopStart s) (js_mul (js_sub (JNum (Fin now)) (lastLoop s)) (playBackrate s))
      else
        js_add (lastStart s) (js_mul (js_sub (JNum (Fin now)) (startTime s)) (playBackrate s)))"

text \<open>
  A session used as a running example: a 10 second buffer, flag on, the region
  \<open>[2, 5)\<close> selected (fractions \<open>1/5\<close> and \<open>1/2\<close>).
\<close>

definition selected_session :: session where
  "selected_session =
     fst (updateSelection (setBuffer (Some \<lparr>duration = 10\<rparr>) (fresh (JBool True)))
            (JNum (Fin (1 / 5))) (JNum (Fin (1 / 2))))"

text \<open>Playing it from offset 1 at clock 1, with a loop wrap reported at clock 4.\<close>

definition looping_session :: session where
  "looping_session = logLoop (fst (play selected_session 1 (JNum (Fin 1)) Undefined)) 4"

text \<open>The stages of \<open>play\<close>, named so that proofs can refer to them.\<close>

definition resolved_end :: "session \<Rightarrow> jsval \<Rightarrow> jsval" where
  "resolved_end s b = (if is_nullish b then getDuration (refreshBufferSource s) else b)"

definition resolved_start :: "session \<Rightarrow> real \<Rightarrow> jsval \<Rightarrow> jsval \<Rightarrow> jsval" where
  "resolved_start s now a b =
     (if js_gt (if is_nullish a then getCurrentTime (refreshBufferSource s) now else a)
               (resolved_end s b) then JNum (Fin 0)
      else (if is_nullish a then getCurrentTime (refreshBufferSource s) now else a))"

definition play_armed :: "session \<Rightarrow> real \<Rightarrow> jsval \<Rightarrow> jsval \<Rightarrow> session" where
  "play_armed s now a b =
     (refreshBufferSource s)\<lparr>lastStart := resolved_start s now a b,
        startTime := JNum (Fin now), paused := JBool False,
        scheduledPause := resolved_end s b\<rparr>"

definition play_looped :: "session \<Rightarrow> real \<Rightarrow> jsval \<Rightarrow> jsval \<Rightarrow> session \<times> completion" where
  "play_looped s now a b =
     (if truthy (loopSelection (play_armed s now a b)) then setupLoop (play_armed s now a b)
      else (play_armed s now a b, Return Undefined))"

text \<open>
  A caller drives the object through its methods, and the platform through the two
  callbacks; each call comes with the clock reading at which it happens. A call that
  throws leaves the assignments it made before the throw, and the next call goes on
  from there, so a sequence is folded over the states alone.
\<close>

datatype op = OpPlay jsval jsval | OpPause | OpUpdateSelection jsval jsval
  | OpClearSelection | OpSetBuffer "audiobuffer option" | OpSetupLoop
  | OpLogLoop | OpAudioprocess

fun step :: "session \<Rightarrow> op \<times> real \<Rightarrow> session" where
  "step s (OpPlay a b, now) = fst (play s now a b)"
| "step s (OpPause, now) = fst (pause s now)"
| "step s (OpUpdateSelection a b, now) = fst (updateSelection s a b)"
| "step s (OpClearSelection, now) = fst (clearSelection s)"
| "step s (OpSetBuffer b, now) = setBuffer b s"
| "step s (OpSetupLoop, now) = fst (setupLoop s)"
| "step s (OpLogLoop, now) = logLoop s now"
| "step s (OpAudioprocess, now) = onaudioprocess s now"

definition run :: "(op \<times> real) list \<Rightarrow> session \<Rightarrow> session" where
  "run ops s = foldl step s ops"

text \<open>The loop region is ordered whenever the loop is enabled.\<close>

definition loop_ordered :: "session \<Rightarrow> bool" where
  "loop_ordered s = (truthy (loop s) \<longrightarrow> js_le (loopStart s) (loopEnd s))"

text \<open>
  What a caller has to respect for the region to stay ordered: the fractions of
  \<open>updateSelection\<close> come in order, and a buffer has a duration that is not negative
  (as every \<open>AudioBuffer\<close> has).
\<close>

definition buffer_nonneg :: "audiobuffer option \<Rightarrow> bool" where
  "buffer_nonneg b = (case b of None \<Rightarrow> True | Some x \<Rightarrow> 0 \<le> duration x)"

fun args_ordered :: "op \<Rightarrow> bool" where
  "args_ordered (OpUpdateSelection a b) = js_le a b"
| "args_ordered (OpSetBuffer b) = buffer_nonneg b"
| "args_ordered _ = True"

text \<open>A finite number: what \<open>lastLoop\<close> holds once it is 0 or a clock reading.\<close>

fun is_finite :: "jsval \<Rightarrow> bool" where
  "is_finite (JNum (Fin _)) = True"
| "is_finite _ = False"

text \<open>
  The loop stamp is in order: once a play segment has started with a valid loop,
  \<open>lastLoop\<close> holds a finite number. \<open>setupLoop\<close> is the only place that sets
  \<open>loopedAtStart\<close>, and it stores 0 in \<open>lastLoop\<close> first.
\<close>

definition stamp_ok :: "session \<Rightarrow> bool" where
  "stamp_ok s = (truthy (loopedAtStart s) \<longrightarrow> is_finite (lastLoop s))"

text \<open>
  With the flag off the loop machinery stays idle: no region is enabled and no segment
  is marked as started in a loop. \<open>lastLoop\<close> is then 0 as soon as something has stored
  a 0 there, which a buffer load does.
\<close>

definition flag_off_idle :: "session \<Rightarrow> bool" where
  "flag_off_idle s =
     (truthy (loopSelection s) \<or> (\<not> truthy (loop s) \<and> \<not> truthy (loopedAtStart s)))"

definition flag_off_reset :: "session \<Rightarrow> bool" where
  "flag_off_reset s = (truthy (loopSelection s) \<or> lastLoop s = JNum (Fin 0))"

section \<open>Frame lemmas\<close>

lemmas model_defs = fresh_def selected_session_def looping_session_def init_def setPlaybackRate_def blank_def clearSource_def
  createBufferSource_def refreshBufferSource_def setupLoop_def setBuffer_def loadEmpty_def
  isPaused_def getDuration_def loopIsActive_def getCurrentTime_def play_def pause_def
  getPlayedPercents_def onaudioprocess_def updateSelection_def clearSelection_def
  logLoop_def fireEvent_def

lemmas js_defs = js_and_def js_or_def js_add_def js_sub_def js_mul_def js_div_def
  js_gt_def js_le_def num_sub_def inf_of_sign_def

lemma clearSource_fields [simp]:
  "loopSelection (clearSource s) = loopSelection s"
  "playBackrate (clearSource s) = playBackrate s"
  "buffer (clearSource s) = buffer s"
  "lastLoop (clearSource s) = lastLoop s"
  "lastPause (clearSource s) = lastPause s"
  "lastStart (clearSource s) = lastStart s"
  "startTime (clearSource s) = startTime s"
  "paused (clearSource s) = paused s"
  "scheduledPause (clearSource s) = scheduledPause s"
  "loop (clearSource s) = loop s"
  "loopStart (clearSource s) = loopStart s"
  "loopEnd (clearSource s) = loopEnd s"
  "loopedAtStart (clearSource s) = loopedAtStart s"
  "events (clearSource s) = events s"
  "source (clearSource s) = None"
  by (simp_all add: clearSource_def split: option.splits)

lemma refresh_time [simp]: "getCurrentTime (refreshBufferSource s) now = getCurrentTime s now"
  by (simp add: getCurrentTime_def refreshBufferSource_def Let_def isPaused_def loopIsActive_def)

lemma refresh_duration [simp]: "getDuration (refreshBufferSource s) = getDuration s"
  by (simp add: getDuration_def refreshBufferSource_def Let_def)


lemma setupLoop_fields [simp]:
  "loopSelection (fst (setupLoop s)) = loopSelection s"
  "playBackrate (fst (setupLoop s)) = playBackrate s"
  "buffer (fst (setupLoop s)) = buffer s"
  "lastLoop (fst (setupLoop s)) = JNum (Fin 0)"
  "lastPause (fst (setupLoop s)) = lastPause s"
  "lastStart (fst (setupLoop s)) = lastStart s"
  "startTime (fst (setupLoop s)) = startTime s"
  "paused (fst (setupLoop s)) = paused s"
  "scheduledPause (fst (setupLoop s)) = scheduledPause s"
  "loop (fst (setupLoop s)) = loop s"
  "loopStart (fst (setupLoop s)) = loopStart s"
  "loopEnd (fst (setupLoop s)) = loopEnd s"
  "events (fst (setupLoop s)) = events s"
  by (simp_all add: setupLoop_def Let_def split: option.splits)

lemma setupLoop_with_source:
  assumes "source s = Some src"
  shows "snd (setupLoop s) = Return Undefined" and "source (fst (setupLoop s)) \<noteq> None"
  using assms by (simp_all add: setupLoop_def Let_def)

lemma refresh_fields [simp]:
  "loopSelection (refreshBufferSource s) = loopSelection s"
  "playBackrate (refreshBufferSource s) = playBackrate s"
  "buffer (refreshBufferSource s) = buffer s"
  "lastLoop (refreshBufferSource s) = lastLoop s"
  "lastPause (refreshBufferSource s) = lastPause s"
  "lastStart (refreshBufferSource s) = lastStart s"
  "startTime (refreshBufferSource s) = startTime s"
  "paused (refreshBufferSource s) = paused s"
  "scheduledPause (refreshBufferSource s) = scheduledPause s"
  "loop (refreshBufferSource s) = loop s"
  "loopStart (refreshBufferSource s) = loopStart s"
  "loopEnd (refreshBufferSource s) = loopEnd s"
  "loopedAtStart (refreshBufferSource s) = loopedAtStart s"
  "events (refreshBufferSource s) = events s"
  by (simp_all add: refreshBufferSource_def Let_def)

lemma refresh_source: "source (refreshBufferSource s) \<noteq> None"
  by (simp add: refreshBufferSource_def Let_def)

lemma play_unfold:
  "play s now a b =
     (case snd (play_looped s now a b) of
        Throw e \<Rightarrow> (fst (play_looped s now a b), Throw e)
      | Return _ \<Rightarrow>
          (case source (fst (play_looped s now a b)) of
             None \<Rightarrow> (fst (play_looped s now a b), Throw TypeError)
           | Some src \<Rightarrow>
               (fireEvent EvPlay
                  ((fst (play_looped s now a b))\<lparr>source :=
                      Some (src\<lparr>src_started := Some (resolved_start s now a b,
                         js_sub (resolved_end s b) (resolved_start s now a b))\<rparr>)\<rparr>),
                Return Undefined)))"
  unfolding play_def play_looped_def play_armed_def resolved_start_def resolved_end_def Let_def
  by (rule refl)

lemma play_looped_ok:
  "snd (play_looped s now a b) = Return Undefined"
  "source (fst (play_looped s now a b)) \<noteq> None"
proof -
  obtain src where src: "source (play_armed s now a b) = Some src"
    using refresh_source [of s] by (auto simp: play_armed_def)
  show "snd (play_looped s now a b) = Return Undefined"
    using setupLoop_with_source(1) [OF src] by (simp add: play_looped_def)
  show "source (fst (play_looped s now a b)) \<noteq> None"
    using setupLoop_with_source(2) [OF src] src by (simp add: play_looped_def)
qed

lemma play_result:
  "snd (play s now a b) = Return Undefined"
  "\<exists>src. fst (play s now a b) =
      fireEvent EvPlay ((fst (play_looped s now a b))\<lparr>source := Some src\<rparr>)"
proof -
  obtain src where src: "source (fst (play_looped s now a b)) = Some src"
    using play_looped_ok(2) [of s now a b] by auto
  show "snd (play s now a b) = Return Undefined"
    by (simp add: play_unfold play_looped_ok(1) src)
  show "\<exists>src. fst (play s now a b) =
      fireEvent EvPlay ((fst (play_looped s now a b))\<lparr>source := Some src\<rparr>)"
    by (rule exI [of _ "src\<lparr>src_started := Some (resolved_start s now a b,
          js_sub (resolved_end s b) (resolved_start s now a b))\<rparr>"])
       (simp add: play_unfold play_looped_ok(1) src)
qed

lemma play_looped_fields [simp]:
  "lastStart (fst (play_looped s now a b)) = resolved_start s now a b"
  "startTime (fst (play_looped s now a b)) = JNum (Fin now)"
  "paused (fst (play_looped s now a b)) = JBool False"
  "scheduledPause (fst (play_looped s now a b)) = resolved_end s b"
  "loopSelection (fst (play_looped s now a b)) = loopSelection s"
  "lastLoop (fst (play_looped s now a b)) =
     (if truthy (loopSelection s) then JNum (Fin 0) else lastLoop s)"
  "loop (fst (play_looped s now a b)) = loop s"
  "loopStart (fst (play_looped s now a b)) = loopStart s"
  "loopEnd (fst (play_looped s now a b)) = loopEnd s"
  "buffer (fst (play_looped s now a b)) = buffer s"
  by (simp_all add: play_looped_def play_armed_def)

lemma num_mul_mono:
  assumes "num_le x y" and "0 < d"
  shows "num_le (num_mul (Fin d) x) (num_mul (Fin d) y)"
  using assms by (cases x; cases y) (simp_all add: inf_of_sign_def)

lemma updateSelection_ordered:
  assumes "js_le a b" and "buffer_nonneg (buffer s)"
  shows "loop_ordered s \<Longrightarrow> loop_ordered (fst (updateSelection s a b))"
proof (cases "truthy (loopSelection s) \<and> truthy (getDuration s)")
  case False
  assume "loop_ordered s"
  with False show ?thesis by (auto simp: updateSelection_def Let_def)
next
  case True
  then obtain x where x: "buffer s = Some x" "duration x \<noteq> 0"
    by (auto simp: getDuration_def split: option.splits)
  with assms(2) have pos: "0 < duration x" by (simp add: buffer_nonneg_def)
  have "js_le (js_mul (getDuration s) a) (js_mul (getDuration s) b)"
    using num_mul_mono [OF assms(1) [unfolded js_le_def] pos]
    by (simp add: js_le_def js_mul_def getDuration_def x)
  with True show ?thesis
    by (simp add: updateSelection_def Let_def loop_ordered_def split: option.splits)
qed

lemma updateSelection_buffer [simp]: "buffer (fst (updateSelection s a b)) = buffer s"
  by (simp add: updateSelection_def Let_def split: option.splits)

lemma clearSelection_buffer [simp]: "buffer (fst (clearSelection s)) = buffer s"
  by (simp add: clearSelection_def Let_def split: option.splits)

lemma clearSelection_ordered: "loop_ordered s \<Longrightarrow> loop_ordered (fst (clearSelection s))"
  by (simp add: clearSelection_def Let_def loop_ordered_def split: option.splits)

lemma pause_loop_fields [simp]:
  "loop (fst (pause s now)) = loop s"
  "loopStart (fst (pause s now)) = loopStart s"
  "loopEnd (fst (pause s now)) = loopEnd s"
  "buffer (fst (pause s now)) = buffer s"
  "lastLoop (fst (pause s now)) = lastLoop s"
  by (simp_all add: pause_def Let_def fireEvent_def split: option.splits)

lemma play_loop_fields [simp]:
  "loop (fst (play s now a b)) = loop s"
  "loopStart (fst (play s now a b)) = loopStart s"
  "loopEnd (fst (play s now a b)) = loopEnd s"
  "buffer (fst (play s now a b)) = buffer s"
  "lastLoop (fst (play s now a b)) =
     (if truthy (loopSelection s) then JNum (Fin 0) else lastLoop s)"
proof -
  obtain src where eq: "fst (play s now a b) =
      fireEvent EvPlay ((fst (play_looped s now a b))\<lparr>source := Some src\<rparr>)"
    using play_result(2) [of s now a b] by blast
  show "loop (fst (play s now a b)) = loop s"
    "loopStart (fst (play s now a b)) = loopStart s"
    "loopEnd (fst (play s now a b)) = loopEnd s"
    "buffer (fst (play s now a b)) = buffer s"
    "lastLoop (fst (play s now a b)) =
       (if truthy (loopSelection s) then JNum (Fin 0) else lastLoop s)"
    by (simp_all add: eq fireEvent_def)
qed

lemma setBuffer_loop_fields [simp]:
  "loop (setBuffer b s) = loop s"
  "loopStart (setBuffer b s) = loopStart s"
  "loopEnd (setBuffer b s) = loopEnd s"
  "buffer (setBuffer b s) = b"
  "lastLoop (setBuffer b s) = JNum (Fin 0)"
  by (simp_all add: setBuffer_def)

lemma selection_lastLoop [simp]:
  "lastLoop (fst (updateSelection s a b)) = lastLoop s"
  "lastLoop (fst (clearSelection s)) = lastLoop s"
  by (simp_all add: updateSelection_def clearSelection_def Let_def split: option.splits)

lemma onaudioprocess_loop_fields [simp]:
  "loop (onaudioprocess s now) = loop s"
  "loopStart (onaudioprocess s now) = loopStart s"
  "loopEnd (onaudioprocess s now) = loopEnd s"
  "buffer (onaudioprocess s now) = buffer s"
  "lastLoop (onaudioprocess s now) = lastLoop s"
  by (simp_all add: onaudioprocess_def Let_def fireEvent_def)

lemma logLoop_loop_fields [simp]:
  "loop (logLoop s now) = loop s"
  "loopStart (logLoop s now) = loopStart s"
  "loopEnd (logLoop s now) = loopEnd s"
  "buffer (logLoop s now) = buffer s"
  by (simp_all add: logLoop_def)

lemma step_ordered:
  assumes "loop_ordered s" and "buffer_nonneg (buffer s)" and "args_ordered (fst x)"
  shows "loop_ordered (step s x) \<and> buffer_nonneg (buffer (step s x))"
proof (cases x)
  case (Pair o1 now)
  show ?thesis
  proof (cases o1)
    case (OpUpdateSelection a b)
    with Pair assms show ?thesis by (simp add: updateSelection_ordered)
  next
    case OpClearSelection
    with Pair assms show ?thesis by (simp add: clearSelection_ordered)
  qed (use Pair assms in \<open>simp_all add: loop_ordered_def\<close>)
qed

lemma run_ordered:
  assumes "\<forall>x \<in> set ops. args_ordered (fst x)"
  shows "loop_ordered s \<Longrightarrow> buffer_nonneg (buffer s) \<Longrightarrow>
         loop_ordered (run ops s) \<and> buffer_nonneg (buffer (run ops s))"
  using assms unfolding run_def
proof (induction ops arbitrary: s)
  case Nil
  then show ?case by simp
next
  case (Cons x xs)
  have "loop_ordered (step s x) \<and> buffer_nonneg (buffer (step s x))"
    using step_ordered [of s x] Cons.prems by simp
  then show ?case using Cons.IH [of "step s x"] Cons.prems by simp
qed

lemma is_finite_truthy: "is_finite v \<Longrightarrow> truthy v = (v \<noteq> JNum (Fin 0))"
  by (cases v rule: is_finite.cases) simp_all

lemma loop_active_agree:
  assumes "stamp_ok s"
  shows "truthy (loopIsActive s) = spec_loop_active s"
proof (cases "truthy (loopedAtStart s)")
  case True
  with assms have "is_finite (lastLoop s)" by (simp add: stamp_ok_def)
  then show ?thesis
    by (simp add: loopIsActive_def spec_loop_active_def js_and_def is_finite_truthy)
next
  case False
  then show ?thesis by (simp add: loopIsActive_def spec_loop_active_def js_and_def)
qed

lemma loopedAtStart_frames [simp]:
  "loopedAtStart (fst (pause s now)) = loopedAtStart s"
  "loopedAtStart (setBuffer buf s) = loopedAtStart s"
  "loopedAtStart (fst (updateSelection s a b)) = loopedAtStart s"
  "loopedAtStart (fst (clearSelection s)) = loopedAtStart s"
  "loopedAtStart (onaudioprocess s now) = loopedAtStart s"
  by (simp_all add: pause_def setBuffer_def updateSelection_def clearSelection_def
      onaudioprocess_def fireEvent_def Let_def split: option.splits)

lemma play_loopedAtStart:
  "\<not> truthy (loopSelection s) \<Longrightarrow> loopedAtStart (fst (play s now a b)) = loopedAtStart s"
proof -
  assume off: "\<not> truthy (loopSelection s)"
  obtain src where eq: "fst (play s now a b) =
      fireEvent EvPlay ((fst (play_looped s now a b))\<lparr>source := Some src\<rparr>)"
    using play_result(2) [of s now a b] by blast
  show ?thesis using off by (simp add: eq fireEvent_def play_looped_def play_armed_def)
qed

lemma step_stamp_ok:
  assumes "stamp_ok s"
  shows "stamp_ok (step s x)"
proof (cases x)
  case (Pair o1 now)
  show ?thesis
  proof (cases o1)
    case (OpPlay a b)
    with Pair assms show ?thesis
      by (cases "truthy (loopSelection s)") (simp_all add: stamp_ok_def play_loopedAtStart)
  qed (use Pair assms in \<open>simp_all add: stamp_ok_def logLoop_def\<close>)
qed

lemma run_stamp_ok: "stamp_ok s \<Longrightarrow> stamp_ok (run ops s)"
  unfolding run_def
  by (induction ops arbitrary: s) (simp_all add: step_stamp_ok)

lemma init_stamp_ok: "stamp_ok (fst (init supported ls rate blank))"
  by (simp add: stamp_ok_def init_def blank_def setPlaybackRate_def)

lemma play_loopSelection [simp]: "loopSelection (fst (play s now a b)) = loopSelection s"
proof -
  obtain src where eq: "fst (play s now a b) =
      fireEvent EvPlay ((fst (play_looped s now a b))\<lparr>source := Some src\<rparr>)"
    using play_result(2) [of s now a b] by blast
  show ?thesis by (simp add: eq fireEvent_def)
qed

lemma loopSelection_frames [simp]:
  "loopSelection (fst (pause s now)) = loopSelection s"
  "loopSelection (setBuffer buf s) = loopSelection s"
  "loopSelection (fst (updateSelection s a b)) = loopSelection s"
  "loopSelection (fst (clearSelection s)) = loopSelection s"
  "loopSelection (onaudioprocess s now) = loopSelection s"
  "loopSelection (logLoop s now) = loopSelection s"
  by (simp_all add: pause_def setBuffer_def updateSelection_def clearSelection_def
      onaudioprocess_def logLoop_def fireEvent_def Let_def split: option.splits)

lemma step_loopSelection [simp]: "loopSelection (step s x) = loopSelection s"
proof (cases x)
  case (Pair o1 now)
  then show ?thesis by (cases o1) simp_all
qed

lemma run_loopSelection [simp]: "loopSelection (run ops s) = loopSelection s"
  unfolding run_def by (induction ops arbitrary: s) simp_all

lemma selection_flag_off:
  "\<not> truthy (loopSelection s) \<Longrightarrow> fst (updateSelection s a b) = s"
  "\<not> truthy (loopSelection s) \<Longrightarrow> fst (clearSelection s) = s"
  by (simp_all add: updateSelection_def clearSelection_def)

lemma setupLoop_no_loop:
  "\<not> truthy (loop s) \<Longrightarrow> loopedAtStart (fst (setupLoop s)) = JBool False"
  by (simp add: setupLoop_def Let_def js_and_def)

lemma logLoop_idle: "\<not> truthy (loopedAtStart s) \<Longrightarrow> logLoop s now = s"
  by (simp add: logLoop_def)

lemma step_flag_off_idle:
  assumes "flag_off_idle s"
  shows "flag_off_idle (step s x)"
proof (cases "truthy (loopSelection s)")
  case True
  then show ?thesis by (simp add: flag_off_idle_def)
next
  case False
  with assms have idle: "\<not> truthy (loop s)" "\<not> truthy (loopedAtStart s)"
    by (simp_all add: flag_off_idle_def)
  obtain o1 now where x: "x = (o1, now)" by (cases x)
  show ?thesis
    using False idle unfolding x
    by (cases o1)
       (simp_all add: flag_off_idle_def play_loopedAtStart selection_flag_off
          setupLoop_no_loop logLoop_idle)
qed

lemma step_flag_off_reset:
  assumes "flag_off_idle s" and "flag_off_reset s"
  shows "flag_off_reset (step s x)"
proof (cases "truthy (loopSelection s)")
  case True
  then show ?thesis by (simp add: flag_off_reset_def)
next
  case False
  with assms have idle: "\<not> truthy (loopedAtStart s)" and z: "lastLoop s = JNum (Fin 0)"
    by (simp_all add: flag_off_idle_def flag_off_reset_def)
  obtain o1 now where x: "x = (o1, now)" by (cases x)
  show ?thesis
    using False idle z unfolding x
    by (cases o1) (simp_all add: flag_off_reset_def logLoop_idle)
qed

lemma run_flag_off_idle: "flag_off_idle s \<Longrightarrow> flag_off_idle (run ops s)"
  unfolding run_def
  by (induction ops arbitrary: s) (simp_all add: step_flag_off_idle)

lemma run_flag_off_reset:
  "flag_off_idle s \<Longrightarrow> flag_off_reset s \<Longrightarrow> flag_off_reset (run ops s)"
  unfolding run_def
  by (induction ops arbitrary: s) (simp_all add: step_flag_off_idle step_flag_off_reset)

lemma init_flag_off_idle: "flag_off_idle (fst (init supported ls rate blank))"
  by (simp add: flag_off_idle_def init_def blank_def setPlaybackRate_def)

lemma setBuffer_flag_off:
  "flag_off_idle s \<Longrightarrow> flag_off_idle (setBuffer buf s)"
  "flag_off_reset (setBuffer buf s)"
  by (simp_all add: flag_off_idle_def flag_off_reset_def)

lemma loaded_flag_off_reset:
  "flag_off_reset (run ops2 (setBuffer buf (run ops1 (fst (init supported ls rate blank)))))"
  by (intro run_flag_off_reset setBuffer_flag_off run_flag_off_idle init_flag_off_idle)

section \<open>Time computation\<close>

text \<open>
  Claim C1. \<open>getCurrentTime()\<close> returns \<open>lastPause\<close> when the session is paused;
  otherwise, when the loop-selection flag, \<open>loop\<close>, \<open>lastLoop != 0\<close> and \<open>loopedAtStart\<close>
  all hold, it returns \<open>loopStart + (now - lastLoop) * playBackrate\<close>; otherwise it returns
  \<open>lastStart + (now - startTime) * playBackrate\<close>, in that priority order. The code tests
  \<open>lastLoop\<close> for truthiness, which is the test \<open>lastLoop != 0\<close> of the claim on a finite
  number; so the rule is stated for the sessions whose loop stamp is in order.
\<close>

theorem getCurrentTime_branches:
  assumes "stamp_ok s"
  shows "getCurrentTime s now = spec_position s now"
  by (simp add: getCurrentTime_def spec_position_def isPaused_def loop_active_agree [OF assms])

theorem getCurrentTime_branches_witness:
  "loopedAtStart looping_session = JBool True \<and> lastLoop looping_session = JNum (Fin 4) \<and>
   stamp_ok looping_session \<and>
   getCurrentTime looping_session 5 = spec_position looping_session 5 \<and>
   spec_position looping_session 5 = JNum (Fin 3)"
proof -
  have f: "loopedAtStart looping_session = JBool True" "lastLoop looping_session = JNum (Fin 4)"
    by (simp_all add: model_defs js_defs Let_def)
  have h: "stamp_ok looping_session"
    by (simp add: stamp_ok_def f)
  have v: "spec_position looping_session 5 = JNum (Fin 3)"
    by (simp add: model_defs js_defs spec_position_def spec_loop_active_def Let_def)
  show ?thesis
    using f h v getCurrentTime_branches [OF h, of 5] by simp
qed

text \<open>
  Every session the object can be in has its loop stamp in order: it is so after
  \<open>init\<close>, and every method and callback keeps it so. The time rule therefore holds in
  every state reached from a new object.
\<close>

lemma getCurrentTime_reachable:
  "getCurrentTime (run ops (fst (init supported ls rate blank))) now =
   spec_position (run ops (fst (init supported ls rate blank))) now"
  by (simp add: getCurrentTime_def spec_position_def isPaused_def
      loop_active_agree [OF run_stamp_ok [OF init_stamp_ok]])

section \<open>Play\<close>


text \<open>
  Claim C4, as the code has it. \<open>play\<close> calls \<open>setupLoop\<close> only under
  \<open>if (this.loopSelection)\<close>: with the flag on, \<open>lastLoop\<close> is 0 after \<open>play\<close>; with the
  flag off, \<open>play\<close> leaves \<open>lastLoop\<close> as it found it. On every session on which a buffer
  was loaded since \<open>init\<close>, whatever was called before and after the load, it found a 0
  there when the flag is off, so \<open>lastLoop\<close> is 0 after \<open>play\<close> with the flag on or off.
\<close>

theorem play_lastLoop:
  "lastLoop (fst (play s now a b)) =
     (if truthy (loopSelection s) then JNum (Fin 0) else lastLoop s) \<and>
   lastLoop (fst (play
      (run ops2 (setBuffer buf (run ops1 (fst (init supported ls rate blank))))) now a b)) =
     JNum (Fin 0)"
  using loaded_flag_off_reset [of ops2 buf ops1 supported ls rate]
  by (auto simp add: flag_off_reset_def)

theorem play_lastLoop_witness:
  "\<not> truthy (loopSelection (run [(OpPlay Undefined Undefined, 1), (OpPause, 2)]
      (setBuffer (Some \<lparr>duration = 10\<rparr>) (run [] (fresh (JBool False)))))) \<and>
   lastLoop (fst (play (run [(OpPlay Undefined Undefined, 1), (OpPause, 2)]
      (setBuffer (Some \<lparr>duration = 10\<rparr>) (run [] (fresh (JBool False)))))
      3 Undefined Undefined)) = JNum (Fin 0)"
  using play_lastLoop [where s = blank and now = 3 and a = Undefined and b = Undefined
      and ?ops2.0 = "[(OpPlay Undefined Undefined, 1), (OpPause, 2)]"
      and buf = "Some \<lparr>duration = 10\<rparr>" and ?ops1.0 = "[]" and supported = True
      and ls = "JBool False" and rate = Undefined]
  by (simp add: fresh_def init_def setPlaybackRate_def blank_def)

text \<open>
  Claim C4 as stated fails on a session that was never loaded: with the flag off,
  \<open>play(0, 0)\<close> right after \<open>init\<close> leaves \<open>lastLoop\<close> undefined.
\<close>

theorem play_lastLoop_counterexample:
  "lastLoop (fst (play (fresh (JBool False)) 1 (JNum (Fin 0)) (JNum (Fin 0)))) = Undefined"
  by (simp add: model_defs js_defs Let_def)

section \<open>Pause\<close>

text \<open>
  Claim C5. Two calls of \<open>pause()\<close> in a row at the same clock reading: \<open>lastPause\<close> after
  the second call is what it was after the first; the first call leaves no source, and
  the second call returns normally all the same.
\<close>

theorem pause_twice:
  "lastPause (fst (pause (fst (pause s now)) now)) = lastPause (fst (pause s now)) \<and>
   source (fst (pause s now)) = None \<and>
   snd (pause (fst (pause s now)) now) = Return Undefined"
  by (simp add: pause_def Let_def fireEvent_def loopIsActive_def split: option.splits)

section \<open>The poll callback\<close>

text \<open>
  Claim C2. One run of the \<open>onaudioprocess\<close> callback on a session that is not paused,
  with \<open>time = getCurrentTime()\<close>: when \<open>time > scheduledPause\<close> the state is the one
  \<open>pause()\<close> leaves, otherwise it is unchanged; the events emitted are \<open>pause\<close> when
  \<open>time > scheduledPause\<close>, then \<open>finish\<close> exactly when \<open>time > duration\<close> holds as well,
  then \<open>audioprocess\<close> with \<open>time\<close> in every case, so \<open>pause\<close> comes before \<open>audioprocess\<close>.
\<close>

theorem onaudioprocess_events:
  assumes "\<not> truthy (paused s)"
  shows "onaudioprocess s now =
           (if js_gt (getCurrentTime s now) (scheduledPause s) then fst (pause s now) else s)
             \<lparr>events := events s @
                (if js_gt (getCurrentTime s now) (scheduledPause s) then
                   EvPause # (if js_gt (getCurrentTime s now) (getDuration s)
                              then [EvFinish (getCurrentTime s now)] else [])
                 else []) @
                [EvAudioprocess (getCurrentTime s now)]\<rparr>"
proof -
  have d: "getDuration (fst (pause s now)) = getDuration s"
    by (simp add: pause_def Let_def fireEvent_def getDuration_def split: option.splits)
  have e: "events (fst (pause s now)) = events s @ [EvPause]"
    by (simp add: pause_def Let_def fireEvent_def split: option.splits)
  show ?thesis
    using assms by (simp add: onaudioprocess_def isPaused_def Let_def d e fireEvent_def)
qed

theorem onaudioprocess_events_witness:
  "\<not> truthy (paused (fst (play (setBuffer (Some \<lparr>duration = 10\<rparr>) (fresh (JBool False))) 1
        (JNum (Fin 0)) (JNum (Fin 3))))) \<and>
   events (onaudioprocess (fst (play (setBuffer (Some \<lparr>duration = 10\<rparr>) (fresh (JBool False))) 1
        (JNum (Fin 0)) (JNum (Fin 3)))) 5) =
     [EvPlay, EvPause, EvAudioprocess (JNum (Fin 4))] \<and>
   paused (onaudioprocess (fst (play (setBuffer (Some \<lparr>duration = 10\<rparr>) (fresh (JBool False))) 1
        (JNum (Fin 0)) (JNum (Fin 3)))) 5) = JBool True"
proof -
  let ?s = "fst (play (setBuffer (Some \<lparr>duration = 10\<rparr>) (fresh (JBool False))) 1
        (JNum (Fin 0)) (JNum (Fin 3)))"
  have h: "\<not> truthy (paused ?s)"
    by (simp add: model_defs js_defs Let_def)
  have t: "getCurrentTime ?s 5 = JNum (Fin 4)"
    by (simp add: model_defs js_defs Let_def)
  have v: "events ?s = [EvPlay]" "scheduledPause ?s = JNum (Fin 3)"
    "getDuration ?s = JNum (Fin 10)"
    by (simp_all add: model_defs js_defs Let_def)
  have p: "paused (fst (pause ?s 5)) = JBool True"
    by (simp add: pause_def Let_def fireEvent_def split: option.splits)
  show ?thesis
    using h p onaudioprocess_events [OF h, of 5] by (simp add: t v js_gt_def)
qed

section \<open>Loading a buffer\<close>

text \<open>
  Claim C9, as the code has it. \<open>setBuffer(b)\<close> drops the source, adopts \<open>b\<close>, sets
  \<open>lastLoop\<close>, \<open>lastPause\<close>, \<open>lastStart\<close> and \<open>startTime\<close> to 0 and \<open>paused\<close> to true, and
  changes nothing else: \<open>loop\<close>, \<open>loopStart\<close>, \<open>loopEnd\<close>, \<open>loopedAtStart\<close> and
  \<open>scheduledPause\<close> keep the values they had under the previous buffer.
\<close>

theorem setBuffer_effect:
  "setBuffer b s =
     s\<lparr>source := None, buffer := b, lastLoop := JNum (Fin 0), lastPause := JNum (Fin 0),
       lastStart := JNum (Fin 0), startTime := JNum (Fin 0), paused := JBool True\<rparr>"
  by (simp add: setBuffer_def clearSource_def split: option.splits)

text \<open>
  Claim C9 as stated fails: after the region \<open>[2, 5)\<close> was selected on a 10 second buffer
  and played from 1 to 4, loading a 3 second buffer leaves the loop enabled over
  \<open>[2, 5)\<close>, \<open>loopedAtStart\<close> true and \<open>scheduledPause\<close> at 4.
\<close>

theorem setBuffer_keeps_loop_counterexample:
  "loop (setBuffer (Some \<lparr>duration = 3\<rparr>)
           (fst (play selected_session 1 (JNum (Fin 1)) (JNum (Fin 4))))) = JBool True \<and>
   loopStart (setBuffer (Some \<lparr>duration = 3\<rparr>)
           (fst (play selected_session 1 (JNum (Fin 1)) (JNum (Fin 4))))) = JNum (Fin 2) \<and>
   loopEnd (setBuffer (Some \<lparr>duration = 3\<rparr>)
           (fst (play selected_session 1 (JNum (Fin 1)) (JNum (Fin 4))))) = JNum (Fin 5) \<and>
   loopedAtStart (setBuffer (Some \<lparr>duration = 3\<rparr>)
           (fst (play selected_session 1 (JNum (Fin 1)) (JNum (Fin 4))))) = JBool True \<and>
   scheduledPause (setBuffer (Some \<lparr>duration = 3\<rparr>)
           (fst (play selected_session 1 (JNum (Fin 1)) (JNum (Fin 4))))) = JNum (Fin 4)"
  by (simp add: model_defs js_defs Let_def)

section \<open>Played fraction\<close>

text \<open>
  Claim C6 at a failing input. With no buffer, \<open>getDuration()\<close> is 0 and, as long as the
  session is paused at 0, \<open>getPlayedPercents()\<close> is 0 (\<open>0 / 0\<close> is \<open>NaN\<close>, which
  \<open>|| 0\<close> replaces). After \<open>play()\<close> at clock 1 the duration is still 0, the current time
  at clock 2 is 1, and \<open>getPlayedPercents()\<close> is \<open>1 / 0 = Infinity\<close>, which \<open>|| 0\<close> lets
  through; the same holds once the poll callback has paused the session at 1.
\<close>

theorem getPlayedPercents_infinite:
  "getDuration (loadEmpty (fresh (JBool False))) = JNum (Fin 0) \<and>
   getPlayedPercents (loadEmpty (fresh (JBool False))) 1 = JNum (Fin 0) \<and>
   getDuration (fst (play (loadEmpty (fresh (JBool False))) 1 Undefined Undefined)) =
     JNum (Fin 0) \<and>
   getCurrentTime (fst (play (loadEmpty (fresh (JBool False))) 1 Undefined Undefined)) 2 =
     JNum (Fin 1) \<and>
   getPlayedPercents (fst (play (loadEmpty (fresh (JBool False))) 1 Undefined Undefined)) 2 =
     JNum PInf \<and>
   getPlayedPercents
     (onaudioprocess (fst (play (loadEmpty (fresh (JBool False))) 1 Undefined Undefined)) 2) 3 =
     JNum PInf"
  by (simp add: model_defs js_defs Let_def)

text \<open>What the two functions compute in general.\<close>

lemma getDuration_no_buffer: "buffer s = None \<Longrightarrow> getDuration s = JNum (Fin 0)"
  by (simp add: getDuration_def)

lemma getPlayedPercents_zero_duration:
  assumes "getDuration s = JNum (Fin 0)"
  shows "getPlayedPercents s now =
           (case to_number (getCurrentTime s now) of
              NaN \<Rightarrow> JNum (Fin 0)
            | PInf \<Rightarrow> JNum PInf
            | NInf \<Rightarrow> JNum NInf
            | Fin t \<Rightarrow> (if t = 0 then JNum (Fin 0) else if 0 < t then JNum PInf
                          else JNum NInf))"
  using assms
  by (cases "to_number (getCurrentTime s now)")
     (simp_all add: getPlayedPercents_def js_or_def js_div_def inf_of_sign_def)

section \<open>Loop region\<close>

text \<open>
  Claim C7 at a failing input. With the flag off \<open>updateSelection(1/5, 1/2)\<close> changes
  nothing and returns \<open>false\<close>. With the flag on and no buffer it changes nothing either,
  but returns \<open>undefined\<close> (the bare \<open>return\<close>), which is also what a successful call returns.
\<close>

theorem updateSelection_no_buffer:
  "updateSelection (fresh (JBool False)) (JNum (Fin (1 / 5))) (JNum (Fin (1 / 2))) =
     (fresh (JBool False), Return (JBool False)) \<and>
   updateSelection (loadEmpty (fresh (JBool True))) (JNum (Fin (1 / 5))) (JNum (Fin (1 / 2))) =
     (loadEmpty (fresh (JBool True)), Return Undefined) \<and>
   snd (updateSelection (setBuffer (Some \<lparr>duration = 10\<rparr>) (fresh (JBool True)))
          (JNum (Fin (1 / 5))) (JNum (Fin (1 / 2)))) = Return Undefined"
  by (simp add: model_defs js_defs Let_def)

text \<open>The three paths of \<open>updateSelection\<close> in general.\<close>

lemma updateSelection_paths:
  "updateSelection s a b =
     (if \<not> truthy (loopSelection s) then (s, Return (JBool False))
      else if \<not> truthy (getDuration s) then (s, Return Undefined)
      else (fst (updateSelection s a b), Return Undefined))"
  "truthy (loopSelection s) \<Longrightarrow> truthy (getDuration s) \<Longrightarrow>
     loop (fst (updateSelection s a b)) = JBool True \<and>
     loopStart (fst (updateSelection s a b)) = js_mul (getDuration s) a \<and>
     loopEnd (fst (updateSelection s a b)) = js_mul (getDuration s) b"
  by (simp_all add: updateSelection_def Let_def split: option.splits)

text \<open>
  Claim C10. \<open>clearSelection()\<close> returns \<open>false\<close> exactly when the flag is off, and then
  changes nothing; with the flag on it sets \<open>loop\<close> to false and both bounds to 0,
  whatever the buffer is, loaded or not.
\<close>

theorem clearSelection_contract:
  "(snd (clearSelection s) = Return (JBool False)) = (\<not> truthy (loopSelection s)) \<and>
   (if truthy (loopSelection s) then
      snd (clearSelection s) = Return Undefined \<and>
      loop (fst (clearSelection s)) = JBool False \<and>
      loopStart (fst (clearSelection s)) = JNum (Fin 0) \<and>
      loopEnd (fst (clearSelection s)) = JNum (Fin 0)
    else fst (clearSelection s) = s)"
  by (simp add: clearSelection_def Let_def split: option.splits)

theorem clearSelection_contract_witness:
  "getDuration (loadEmpty selected_session) = JNum (Fin 0) \<and>
   loop (loadEmpty selected_session) = JBool True \<and>
   loopEnd (loadEmpty selected_session) = JNum (Fin 5) \<and>
   snd (clearSelection (loadEmpty selected_session)) = Return Undefined \<and>
   loop (fst (clearSelection (loadEmpty selected_session))) = JBool False \<and>
   loopStart (fst (clearSelection (loadEmpty selected_session))) = JNum (Fin 0) \<and>
   loopEnd (fst (clearSelection (loadEmpty selected_session))) = JNum (Fin 0)"
proof -
  have h: "truthy (loopSelection (loadEmpty selected_session))"
    by (simp add: model_defs js_defs Let_def)
  have v: "getDuration (loadEmpty selected_session) = JNum (Fin 0)"
    "loop (loadEmpty selected_session) = JBool True"
    "loopEnd (loadEmpty selected_session) = JNum (Fin 5)"
    by (simp_all add: model_defs js_defs Let_def)
  show ?thesis
    using clearSelection_contract [of "loadEmpty selected_session"] h v by simp
qed

text \<open>
  Claim C8, as the code has it. No method compares the two bounds, so the order of the
  region is the order of the fractions the caller passes: over every sequence of calls
  in which each \<open>updateSelection\<close> gets \<open>startFraction <= endFraction\<close> (and each buffer
  has a duration that is not negative), \<open>loopStart <= loopEnd\<close> holds whenever the loop is
  enabled, provided it held at the start.
\<close>

theorem loop_region_ordered:
  assumes "loop_ordered s" and "buffer_nonneg (buffer s)"
    and "list_all (\<lambda>x. args_ordered (fst x)) ops"
  shows "loop_ordered (run ops s)"
  using run_ordered [OF assms(3) [unfolded list_all_iff] assms(1) assms(2)] by simp

theorem loop_region_ordered_witness:
  "loop_ordered (fresh (JBool True)) \<and> buffer_nonneg (buffer (fresh (JBool True))) \<and>
   list_all (\<lambda>x. args_ordered (fst x))
     [(OpSetBuffer (Some \<lparr>duration = 10\<rparr>), 0),
      (OpUpdateSelection (JNum (Fin (1 / 5))) (JNum (Fin (1 / 2))), 0),
      (OpPlay (JNum (Fin 1)) Undefined, 1), (OpPause, 2), (OpSetupLoop, 2)] \<and>
   truthy (loop (run [(OpSetBuffer (Some \<lparr>duration = 10\<rparr>), 0),
                (OpUpdateSelection (JNum (Fin (1 / 5))) (JNum (Fin (1 / 2))), 0),
                (OpPlay (JNum (Fin 1)) Undefined, 1), (OpPause, 2), (OpSetupLoop, 2)]
               (fresh (JBool True)))) \<and>
   loop_ordered (run [(OpSetBuffer (Some \<lparr>duration = 10\<rparr>), 0),
                (OpUpdateSelection (JNum (Fin (1 / 5))) (JNum (Fin (1 / 2))), 0),
                (OpPlay (JNum (Fin 1)) Undefined, 1), (OpPause, 2), (OpSetupLoop, 2)]
               (fresh (JBool True)))"
proof -
  let ?ops = "[(OpSetBuffer (Some \<lparr>duration = 10\<rparr>), 0),
                (OpUpdateSelection (JNum (Fin (1 / 5))) (JNum (Fin (1 / 2))), 0),
                (OpPlay (JNum (Fin 1)) Undefined, 1), (OpPause, 2), (OpSetupLoop, 2::real)]"
  have h1: "loop_ordered (fresh (JBool True))"
    by (simp add: loop_ordered_def model_defs js_defs)
  have h2: "buffer_nonneg (buffer (fresh (JBool True)))"
    by (simp add: buffer_nonneg_def model_defs js_defs)
  have h3: "list_all (\<lambda>x. args_ordered (fst x)) ?ops"
    by (simp add: buffer_nonneg_def js_le_def)
  have l: "truthy (loop (run ?ops (fresh (JBool True))))"
    by (simp add: run_def model_defs js_defs Let_def)
  show ?thesis
    using h1 h2 h3 l loop_region_ordered [OF h1 h2 h3] by simp
qed

text \<open>
  Claim C8 as stated fails: on a 10 second buffer \<open>updateSelection(1/2, 1/5)\<close> enables
  the loop with \<open>loopStart = 5\<close> and \<open>loopEnd = 2\<close>.
\<close>

theorem loop_region_unordered_counterexample:
  "loop (run [(OpSetBuffer (Some \<lparr>duration = 10\<rparr>), 0),
              (OpUpdateSelection (JNum (Fin (1 / 2))) (JNum (Fin (1 / 5))), 0)]
          (fresh (JBool True))) = JBool True \<and>
   loopStart (run [(OpSetBuffer (Some \<lparr>duration = 10\<rparr>), 0),
              (OpUpdateSelection (JNum (Fin (1 / 2))) (JNum (Fin (1 / 5))), 0)]
          (fresh (JBool True))) = JNum (Fin 5) \<and>
   loopEnd (run [(OpSetBuffer (Some \<lparr>duration = 10\<rparr>), 0),
              (OpUpdateSelection (JNum (Fin (1 / 2))) (JNum (Fin (1 / 5))), 0)]
          (fresh (JBool True))) = JNum (Fin 2) \<and>
   \<not> loop_ordered (run [(OpSetBuffer (Some \<lparr>duration = 10\<rparr>), 0),
              (OpUpdateSelection (JNum (Fin (1 / 2))) (JNum (Fin (1 / 5))), 0)]
          (fresh (JBool True)))"
  by (simp add: run_def loop_ordered_def model_defs js_defs Let_def)

end
